theory Spec2Isabelle
  imports Complex_Main "HOL-Library.Sublist"
begin

section \<open>Waypoint updater node (ros/src/waypoint_updater/waypoint_updater.py)\<close>

text \<open>
  Python floats are idealised as real numbers throughout: \<open>math.sqrt\<close>, \<open>math.cos\<close>,
  \<open>math.sin\<close> and \<open>math.acos\<close> are the real functions, and rounding is not modelled.
  Exceptions are values of the type \<open>error\<close>; a function that can raise returns
  \<open>error + 'a\<close> with \<open>Inl\<close> for the exception.
\<close>

subsection \<open>Messages\<close>

record Point =
  p_x :: real
  p_y :: real
  p_z :: real

record Quaternion =
  q_x :: real
  q_y :: real
  q_z :: real
  q_w :: real

record Pose =
  position :: Point
  orientation :: Quaternion

text \<open>\<open>geometry_msgs/PoseStamped\<close>; the header is never read by the node.\<close>

record PoseStamped =
  pose :: Pose

record Vector3 =
  v_x :: real
  v_y :: real
  v_z :: real

record Twist =
  linear :: Vector3
  angular :: Vector3

record TwistStamped =
  twist :: Twist

text \<open>\<open>styx_msgs/Waypoint\<close>: fields \<open>pose\<close> and \<open>twist\<close> of the message.\<close>

record Waypoint =
  wp_pose :: PoseStamped
  wp_twist :: TwistStamped

text \<open>\<open>styx_msgs/Lane\<close>; only \<open>waypoints\<close> is read or written.\<close>

record Lane =
  waypoints :: "Waypoint list"

datatype error = AttributeError | IndexError | ValueError | ZeroDivisionError | IOError

subsection \<open>Node state\<close>

text \<open>
  \<open>self.base_waypoints\<close> holds the Python list \<open>[]\<close> assigned by \<open>__init__\<close> until
  \<open>waypoints_cb\<close> stores a \<open>Lane\<close> message in it. A list has no attribute
  \<open>waypoints\<close>, so the two cases are kept apart.
\<close>

datatype base = EmptyList | LaneMsg Lane

text \<open>
  The fields of \<open>WaypointUpdater\<close>. \<open>final_waypoints_pub\<close> is the publisher, modelled by
  the sequence of messages published on it so far, oldest first. The lengths stored in
  \<open>total_waypoints\<close> come from \<open>len\<close> and are natural numbers.
  \<open>current_position\<close> is assigned \<open>[]\<close> once and never read.
\<close>

record WaypointUpdater =
  base_waypoints :: base
  total_waypoints :: nat
  final_waypoints_pub :: "Lane list"

definition LOOKAHEAD_WPS :: nat where
  "LOOKAHEAD_WPS = 50"

text \<open>The state \<open>__init__\<close> leaves behind (before \<open>rospy.spin\<close> dispatches callbacks).\<close>

definition init :: WaypointUpdater where
  "init = \<lparr>base_waypoints = EmptyList, total_waypoints = 0, final_waypoints_pub = []\<rparr>"

subsection \<open>convert_local\<close>

text \<open>\<open>math.acos\<close> raises \<open>ValueError\<close> outside \<open>[-1, 1]\<close>.\<close>

definition py_acos :: "real \<Rightarrow> error + real" where
  "py_acos v = (if - 1 \<le> v \<and> v \<le> 1 then Inr (arccos v) else Inl ValueError)"

definition convert_local :: "Waypoint \<Rightarrow> PoseStamped \<Rightarrow> error + (real \<times> real \<times> real \<times> real)" where
  "convert_local waypoint current_pos =
     (let x_way = p_x (position (pose (wp_pose waypoint)));
          y_way = p_y (position (pose (wp_pose waypoint)));
          x_car = p_x (position (pose current_pos));
          y_car = p_y (position (pose current_pos))
      in case py_acos (q_w (orientation (pose current_pos))) of
           Inl e \<Rightarrow> Inl e
         | Inr a_car \<Rightarrow>
            (let theta_car = 2 * a_car;
                 x_shift = x_way - x_car;
                 y_shift = y_way - y_car
             in case py_acos (q_w (orientation (pose (wp_pose waypoint)))) of
                  Inl e \<Rightarrow> Inl e
                | Inr a_way \<Rightarrow>
                   (let theta_waypoint = 2 * a_way;
                        x = x_shift * cos (0 - theta_car) - y_shift * sin (0 - theta_car);
                        y = x_shift * sin (0 - theta_car) + y_shift * cos (0 - theta_car)
                    in Inr (x, y, theta_car, theta_waypoint))))"

subsection \<open>pose_cb\<close>

text \<open>
  The inner loop \<open>for j in range(LOOKAHEAD_WPS)\<close>: \<open>j_mod = i+j%self.total_waypoints\<close>
  (Python reads this as \<open>i + (j % total)\<close>), then the indexed read, which raises
  \<open>IndexError\<close> past the end of the list. \<open>acc\<close> is \<open>final_waypoints_list\<close>.
\<close>

fun lookahead_loop :: "nat \<Rightarrow> Waypoint list \<Rightarrow> nat \<Rightarrow> nat list \<Rightarrow> Waypoint list
    \<Rightarrow> error + Waypoint list" where
  "lookahead_loop tot wps i [] acc = Inr acc"
| "lookahead_loop tot wps i (j # js) acc =
     (if tot = 0 then Inl ZeroDivisionError
      else let j_mod = i + (j mod tot)
           in if j_mod < length wps
              then lookahead_loop tot wps i js (acc @ [wps ! j_mod])
              else Inl IndexError)"

text \<open>
  The outer loop \<open>for i in range(len(self.base_waypoints.waypoints))\<close>. The result is
  \<open>Some\<close> of the published message when the loop reaches \<open>publish\<close> and \<open>return\<close>,
  and \<open>None\<close> when it runs to its end.
\<close>

fun pose_loop :: "nat \<Rightarrow> Waypoint list \<Rightarrow> PoseStamped \<Rightarrow> nat list \<Rightarrow> error + Lane option" where
  "pose_loop tot wps current_pos [] = Inr None"
| "pose_loop tot wps current_pos (i # rest) =
     (case convert_local (wps ! i) current_pos of
        Inl e \<Rightarrow> Inl e
      | Inr (x, y, theta_car, theta_waypoint) \<Rightarrow>
         (let orientation_match = cos (theta_waypoint - theta_car)
          in if x > 0 \<and> orientation_match > 707 / 1000
             then (case lookahead_loop tot wps i [0..<LOOKAHEAD_WPS] [] of
                     Inl e \<Rightarrow> Inl e
                   | Inr final_waypoints_list \<Rightarrow> Inr (Some \<lparr>waypoints = final_waypoints_list\<rparr>))
             else pose_loop tot wps current_pos rest))"

definition pose_cb :: "WaypointUpdater \<Rightarrow> PoseStamped \<Rightarrow> error + WaypointUpdater" where
  "pose_cb self msg =
     (case base_waypoints self of
        EmptyList \<Rightarrow> Inl AttributeError
      | LaneMsg lane \<Rightarrow>
         (case pose_loop (total_waypoints self) (waypoints lane) msg [0..<length (waypoints lane)] of
            Inl e \<Rightarrow> Inl e
          | Inr None \<Rightarrow> Inr self
          | Inr (Some m) \<Rightarrow> Inr (self\<lparr>final_waypoints_pub := final_waypoints_pub self @ [m]\<rparr>)))"

subsection \<open>The other callbacks and helpers\<close>

definition waypoints_cb :: "WaypointUpdater \<Rightarrow> Lane \<Rightarrow> WaypointUpdater" where
  "waypoints_cb self lane =
     self\<lparr>base_waypoints := LaneMsg lane, total_waypoints := length (waypoints lane)\<rparr>"

text \<open>\<open>traffic_cb\<close> and \<open>obstacle_cb\<close> have the body \<open>pass\<close>.\<close>

definition traffic_cb :: "WaypointUpdater \<Rightarrow> int \<Rightarrow> WaypointUpdater" where
  "traffic_cb self msg = self"

definition get_waypoint_velocity :: "Waypoint \<Rightarrow> real" where
  "get_waypoint_velocity waypoint = v_x (linear (twist (wp_twist waypoint)))"

subsection \<open>distance\<close>

text \<open>
  Python list indexing with an integer: a negative index counts from the end, and an
  index outside \<open>[-len, len)\<close> raises \<open>IndexError\<close>.
\<close>

definition py_index :: "'a list \<Rightarrow> int \<Rightarrow> error + 'a" where
  "py_index xs k =
     (let n = int (length xs); j = (if k < 0 then n + k else k)
      in if 0 \<le> j \<and> j < n then Inr (xs ! nat j) else Inl IndexError)"

text \<open>The lambda \<open>dl\<close> of \<open>distance\<close>.\<close>

definition dl :: "Point \<Rightarrow> Point \<Rightarrow> real" where
  "dl a b = sqrt ((p_x a - p_x b)\<^sup>2 + (p_y a - p_y b)\<^sup>2 + (p_z a - p_z b)\<^sup>2)"

text \<open>
  The loop \<open>for i in range(wp1, wp2+1)\<close>; the second argument is the current value of
  the variable \<open>wp1\<close>, which the body overwrites with \<open>i\<close>, and \<open>d\<close> is \<open>dist\<close>.
\<close>

fun distance_loop :: "Waypoint list \<Rightarrow> int \<Rightarrow> int list \<Rightarrow> real \<Rightarrow> error + real" where
  "distance_loop wps wp1 [] d = Inr d"
| "distance_loop wps wp1 (i # rest) d =
     (case py_index wps wp1 of
        Inl e \<Rightarrow> Inl e
      | Inr a \<Rightarrow>
         (case py_index wps i of
            Inl e \<Rightarrow> Inl e
          | Inr b \<Rightarrow>
             distance_loop wps i rest
               (d + dl (position (pose (wp_pose a))) (position (pose (wp_pose b))))))"

text \<open>\<open>range(wp1, wp2+1)\<close> is the integer interval \<open>[wp1..wp2]\<close>.\<close>

definition distance :: "Waypoint list \<Rightarrow> int \<Rightarrow> int \<Rightarrow> error + real" where
  "distance wps wp1 wp2 = distance_loop wps wp1 [wp1..wp2] 0"

section \<open>Dataset handler (tl_model/DatasetHandler.py)\<close>

subsection \<open>Label data and the handler's attributes\<close>

text \<open>
  One entry of the label file is a dictionary with the keys \<open>path\<close> and \<open>boxes\<close>;
  one box carries a \<open>label\<close> and its corner coordinates. A label file with other
  shapes of entries (a missing key) is not modelled.
\<close>

record Box =
  label :: string
  x_min :: real
  x_max :: real
  y_min :: real
  y_max :: real

record Image =
  path :: string
  boxes :: "Box list"

record DatasetHandler =
  bosch_label_dict_valid :: bool
  bosch_label_dict :: "Image list"
  bosch_label_statistics :: "string \<rightharpoonup> nat"
  bosch_number_images :: nat
  bosch_number_labeled_traffic_lights :: nat
  bosch_image_shape :: "nat \<times> nat \<times> nat"

text \<open>
  What the method reads from outside the program, taken as a parameter:
  \<open>os.path.exists\<close>, \<open>os.path.abspath\<close>, \<open>os.path.join\<close>, \<open>os.path.dirname\<close>,
  the result of \<open>yaml.load(open(p, 'rb').read())\<close> (which raises when the file cannot
  be opened or parsed) and the shape of the image \<open>cv2.imread\<close> returns (\<open>None\<close> when
  it cannot read the file).
\<close>

record Env =
  os_path_exists :: "string \<Rightarrow> bool"
  os_path_abspath :: "string \<Rightarrow> string"
  os_path_join :: "string \<Rightarrow> string \<Rightarrow> string"
  os_path_dirname :: "string \<Rightarrow> string"
  yaml_load :: "string \<Rightarrow> error + Image list"
  cv2_imread :: "string \<Rightarrow> (nat \<times> nat \<times> nat) option"

text \<open>The class attributes: the values of a fresh handler.\<close>

definition new_handler :: DatasetHandler where
  "new_handler =
     \<lparr>bosch_label_dict_valid = False, bosch_label_dict = [],
      bosch_label_statistics = Map.empty, bosch_number_images = 0,
      bosch_number_labeled_traffic_lights = 0, bosch_image_shape = (0, 0, 0)\<rparr>"

subsection \<open>read_all_bosch_labels\<close>

text \<open>
  \<open>str.replace(old, new)\<close>: every non-overlapping occurrence, from the left.
\<close>

function str_replace :: "string \<Rightarrow> string \<Rightarrow> string \<Rightarrow> string" where
  "str_replace old new [] = (if old = [] then new else [])"
| "str_replace old new (c # cs) =
     (if old = [] then new @ c # str_replace old new cs
      else if prefix old (c # cs)
           then new @ str_replace old new (drop (length old) (c # cs))
           else c # str_replace old new cs)"
  by pat_completeness auto
termination
  by (relation "measure (\<lambda>(old, new, s). length s)") (auto simp: neq_Nil_conv)

text \<open>The statistics loop \<open>for box in images[i]['boxes']\<close>.\<close>

fun count_labels :: "(string \<rightharpoonup> nat) \<Rightarrow> Box list \<Rightarrow> (string \<rightharpoonup> nat)" where
  "count_labels stats [] = stats"
| "count_labels stats (box # rest) =
     count_labels
       (case stats (label box) of
          None \<Rightarrow> stats(label box \<mapsto> 1)
        | Some c \<Rightarrow> stats(label box \<mapsto> c + 1))
       rest"

text \<open>
  The loop \<open>for i in range(self.bosch_number_images)\<close> over the entries still to do;
  \<open>acc\<close> holds the entries already rewritten, in order.
\<close>

fun label_loop :: "Env \<Rightarrow> string \<Rightarrow> bool \<Rightarrow> DatasetHandler \<Rightarrow> Image list \<Rightarrow> Image list
    \<Rightarrow> DatasetHandler \<times> Image list" where
  "label_loop env input_yaml riib self [] acc = (self, acc)"
| "label_loop env input_yaml riib self (img # rest) acc =
     (let p0 = os_path_abspath env
                 (os_path_join env (os_path_dirname env input_yaml) (path img));
          img1 = img\<lparr>path := p0\<rparr>;
          img2 = (if riib
                  then img1\<lparr>path := str_replace ''rgb/test'' ''riib/test''
                                      (str_replace ''rgb/train'' ''riib/train''
                                        (str_replace ''.png'' ''.pgm'' p0)),
                            boxes := map (\<lambda>box. box\<lparr>y_max := y_max box + 8,
                                                    y_min := y_min box + 8\<rparr>) (boxes img1)\<rparr>
                  else img1);
          self1 = self\<lparr>bosch_number_labeled_traffic_lights :=
                        bosch_number_labeled_traffic_lights self + length (boxes img2)\<rparr>;
          self2 = self1\<lparr>bosch_label_statistics :=
                         count_labels (bosch_label_statistics self1) (boxes img2)\<rparr>
      in label_loop env input_yaml riib self2 rest (acc @ [img2]))"

text \<open>
  The method returns the handler as it is when the call ends, also when it ends in an
  exception, together with the returned value (\<open>None\<close> of Python is \<open>None\<close>) or the
  exception.
\<close>

definition read_all_bosch_labels :: "Env \<Rightarrow> DatasetHandler \<Rightarrow> string \<Rightarrow> bool
    \<Rightarrow> DatasetHandler \<times> (error + Image list option)" where
  "read_all_bosch_labels env self input_yaml riib =
     (if \<not> os_path_exists env input_yaml then (self, Inr None)
      else case yaml_load env input_yaml of
             Inl e \<Rightarrow> (self, Inl e)
           | Inr images0 \<Rightarrow>
              (let self1 = self\<lparr>bosch_number_images := length images0\<rparr>;
                   (self2, images) = label_loop env input_yaml riib self1 images0 [];
                   self3 = self2\<lparr>bosch_label_dict := images\<rparr>
               in case images of
                    [] \<Rightarrow> (self3, Inl IndexError)
                  | first # _ \<Rightarrow>
                     (case cv2_imread env (path first) of
                        None \<Rightarrow> (self3, Inl AttributeError)
                      | Some shape \<Rightarrow>
                         (self3\<lparr>bosch_image_shape := shape, bosch_label_dict_valid := True\<rparr>,
                          Inr (Some images)))))"

section \<open>Notions used to state the properties\<close>

text \<open>
  The test of line 90 of \<open>pose_cb\<close> on one waypoint: \<open>convert_local\<close> returns, the
  local forward coordinate is positive and the headings match.
\<close>

definition ahead :: "Waypoint \<Rightarrow> PoseStamped \<Rightarrow> bool" where
  "ahead waypoint current_pos =
     (case convert_local waypoint current_pos of
        Inl e \<Rightarrow> False
      | Inr (x, y, theta_car, theta_waypoint) \<Rightarrow>
          x > 0 \<and> cos (theta_waypoint - theta_car) > 707 / 1000)"

text \<open>An orientation on which \<open>math.acos\<close> does not raise.\<close>

definition valid_w :: "Quaternion \<Rightarrow> bool" where
  "valid_w q = (- 1 \<le> q_w q \<and> q_w q \<le> 1)"

text \<open>The unit quaternion of a rotation by \<open>\<theta>\<close> about the vertical axis.\<close>

definition yaw_quaternion :: "real \<Rightarrow> Quaternion" where
  "yaw_quaternion \<theta> = \<lparr>q_x = 0, q_y = 0, q_z = sin (\<theta> / 2), q_w = cos (\<theta> / 2)\<rparr>"

definition car_pose :: "real \<Rightarrow> real \<Rightarrow> real \<Rightarrow> PoseStamped" where
  "car_pose x y \<theta> =
     \<lparr>pose = \<lparr>position = \<lparr>p_x = x, p_y = y, p_z = 0\<rparr>, orientation = yaw_quaternion \<theta>\<rparr>\<rparr>"

text \<open>A waypoint on the x axis, heading along it, with reference speed \<open>v\<close>.\<close>

definition mk_waypoint :: "real \<Rightarrow> real \<Rightarrow> Waypoint" where
  "mk_waypoint x v =
     \<lparr>wp_pose = car_pose x 0 0,
      wp_twist = \<lparr>twist = \<lparr>linear = \<lparr>v_x = v, v_y = 0, v_z = 0\<rparr>,
                           angular = \<lparr>v_x = 0, v_y = 0, v_z = 0\<rparr>\<rparr>\<rparr>\<rparr>"

text \<open>A straight route of \<open>n\<close> waypoints one unit apart, reference speed 10.\<close>

definition line_route :: "nat \<Rightarrow> Lane" where
  "line_route n = \<lparr>waypoints = map (\<lambda>k. mk_waypoint (real k) 10) [0..<n]\<rparr>"

text \<open>The window of \<open>LOOKAHEAD_WPS\<close> waypoints of the straight route that starts at index \<open>i\<close>.\<close>

definition line_window :: "nat \<Rightarrow> Lane" where
  "line_window i = \<lparr>waypoints = map (\<lambda>j. mk_waypoint (real (i + j)) 10) [0..<LOOKAHEAD_WPS]\<rparr>"

text \<open>
  The speeds of the last message on the publisher after a call of \<open>pose_cb\<close>, each read
  with \<open>get_waypoint_velocity\<close>; empty when the call raised or nothing was ever published.
\<close>

definition last_window_speeds :: "error + WaypointUpdater \<Rightarrow> real list" where
  "last_window_speeds r =
     (case r of
        Inl e \<Rightarrow> []
      | Inr s \<Rightarrow> (case final_waypoints_pub s of
                    [] \<Rightarrow> []
                  | m # ms \<Rightarrow> map get_waypoint_velocity (waypoints (last (m # ms)))))"

text \<open>
  A label file \<open>labels.yaml\<close> with one image and one box, in a file system where every
  image can be read and has the shape of the RGB images of the data set.
\<close>

definition example_image :: Image where
  "example_image =
     \<lparr>path = ''rgb/train/1.png'',
      boxes = [\<lparr>label = ''Red'', x_min = 1, x_max = 2, y_min = 3, y_max = 4\<rparr>]\<rparr>"

definition example_env :: Env where
  "example_env =
     \<lparr>os_path_exists = (\<lambda>p. p = ''labels.yaml''),
      os_path_abspath = (\<lambda>p. p),
      os_path_join = (\<lambda>a b. a @ ''/'' @ b),
      os_path_dirname = (\<lambda>p. ''data''),
      yaml_load = (\<lambda>p. Inr [example_image]),
      cv2_imread = (\<lambda>p. Some (720, 1280, 3))\<rparr>"

text \<open>
  The test of the specification (section 4.2) on one waypoint, for comparison with
  \<open>ahead\<close>: with the vehicle heading \<open>\<theta>_car\<close> and the waypoint heading
  \<open>\<theta>_waypoint\<close> given as angles, the waypoint's position is translated by the vehicle
  position and rotated by the negative of the vehicle heading; the forward coordinate
  must be positive and the cosine of the difference of the headings above 0.707.
\<close>

definition spec_forward :: "real \<Rightarrow> Waypoint \<Rightarrow> PoseStamped \<Rightarrow> real" where
  "spec_forward \<theta>_car waypoint current_pos =
     (p_x (position (pose (wp_pose waypoint))) - p_x (position (pose current_pos))) * cos (- \<theta>_car)
     - (p_y (position (pose (wp_pose waypoint))) - p_y (position (pose current_pos))) * sin (- \<theta>_car)"

definition spec_qualifies :: "real \<Rightarrow> real \<Rightarrow> Waypoint \<Rightarrow> PoseStamped \<Rightarrow> bool" where
  "spec_qualifies \<theta>_car \<theta>_waypoint waypoint current_pos =
     (spec_forward \<theta>_car waypoint current_pos > 0 \<and>
      cos (\<theta>_waypoint - \<theta>_car) > 707 / 1000)"

text \<open>
  A straight route running south along the y axis: waypoint \<open>k\<close> is at \<open>(0, 10 - k)\<close>
  and heads south (heading \<open>-\<pi>/2\<close>), with reference speed 10; and the window of its
  first \<open>LOOKAHEAD_WPS\<close> waypoints.
\<close>

definition south_waypoint :: "nat \<Rightarrow> Waypoint" where
  "south_waypoint k =
     \<lparr>wp_pose = car_pose 0 (10 - real k) (- (pi / 2)),
      wp_twist = \<lparr>twist = \<lparr>linear = \<lparr>v_x = 10, v_y = 0, v_z = 0\<rparr>,
                           angular = \<lparr>v_x = 0, v_y = 0, v_z = 0\<rparr>\<rparr>\<rparr>\<rparr>"

definition south_route :: "nat \<Rightarrow> Lane" where
  "south_route n = \<lparr>waypoints = map south_waypoint [0..<n]\<rparr>"

definition south_window :: Lane where
  "south_window = \<lparr>waypoints = map south_waypoint [0..<LOOKAHEAD_WPS]\<rparr>"

section \<open>Properties of the waypoint updater\<close>

subsection \<open>The two loops of pose_cb\<close>

lemma lookahead_loop_eq:
  "0 < tot \<Longrightarrow> lookahead_loop tot wps i js acc =
     (if \<forall>j\<in>set js. i + j mod tot < length wps
      then Inr (acc @ map (\<lambda>j. wps ! (i + j mod tot)) js) else Inl IndexError)"
  by (induction js arbitrary: acc) (auto simp: Let_def)

lemma lookahead_loop_zero:
  "js \<noteq> [] \<Longrightarrow> lookahead_loop 0 wps i js acc = Inl ZeroDivisionError"
  by (cases js) auto

lemma convert_local_valid:
  "valid_w (orientation (pose cur)) \<Longrightarrow> valid_w (orientation (pose (wp_pose wp)))
   \<Longrightarrow> \<exists>r. convert_local wp cur = Inr r"
  by (simp add: convert_local_def py_acos_def valid_w_def Let_def)

lemma ahead_valid_car: "ahead wp cur \<Longrightarrow> valid_w (orientation (pose cur))"
  by (auto simp: ahead_def convert_local_def py_acos_def valid_w_def Let_def
      split: if_splits sum.splits)

lemma pose_loop_hit:
  "ahead (wps ! i) cur \<Longrightarrow> pose_loop tot wps cur (i # rest) =
     (case lookahead_loop tot wps i [0..<LOOKAHEAD_WPS] [] of
        Inl e \<Rightarrow> Inl e | Inr l \<Rightarrow> Inr (Some \<lparr>waypoints = l\<rparr>))"
  by (auto simp: ahead_def split: sum.splits prod.splits)

lemma pose_loop_miss:
  "\<not> ahead (wps ! i) cur \<Longrightarrow> convert_local (wps ! i) cur = Inr r \<Longrightarrow>
   pose_loop tot wps cur (i # rest) = pose_loop tot wps cur rest"
  by (auto simp: ahead_def split: sum.splits prod.splits)

lemma pose_loop_skip:
  "\<forall>k\<in>set pre. \<not> ahead (wps ! k) cur \<and> valid_w (orientation (pose (wp_pose (wps ! k)))) \<Longrightarrow>
   valid_w (orientation (pose cur)) \<Longrightarrow>
   pose_loop tot wps cur (pre @ rest) = pose_loop tot wps cur rest"
proof (induction pre)
  case Nil
  then show ?case by simp
next
  case (Cons k pre)
  then obtain r where "convert_local (wps ! k) cur = Inr r"
    using convert_local_valid by (metis list.set_intros(1))
  with Cons show ?case
    using pose_loop_miss[of wps k cur r tot "pre @ rest"] by simp
qed

lemma pose_loop_Some:
  "pose_loop tot wps cur ks = Inr (Some m) \<Longrightarrow>
   \<exists>pre i post. ks = pre @ i # post \<and> (\<forall>k\<in>set pre. \<not> ahead (wps ! k) cur) \<and>
      ahead (wps ! i) cur \<and> lookahead_loop tot wps i [0..<LOOKAHEAD_WPS] [] = Inr (waypoints m)"
proof (induction ks)
  case Nil
  then show ?case by simp
next
  case (Cons k ks)
  show ?case
  proof (cases "ahead (wps ! k) cur")
    case True
    with Cons.prems have "lookahead_loop tot wps k [0..<LOOKAHEAD_WPS] [] = Inr (waypoints m)"
      using pose_loop_hit[of wps k cur tot ks]
      by (auto simp del: pose_loop.simps split: sum.splits)
    with True show ?thesis by (intro exI[of _ "[]"] exI[of _ k] exI[of _ ks]) simp
  next
    case False
    with Cons.prems obtain r where r: "convert_local (wps ! k) cur = Inr r"
      by (cases "convert_local (wps ! k) cur") auto
    have "pose_loop tot wps cur ks = Inr (Some m)"
      using pose_loop_miss[OF False r, of tot ks] Cons.prems by (simp del: pose_loop.simps)
    from Cons.IH[OF this] obtain pre i post where
      "ks = pre @ i # post" "\<forall>k\<in>set pre. \<not> ahead (wps ! k) cur" "ahead (wps ! i) cur"
      "lookahead_loop tot wps i [0..<LOOKAHEAD_WPS] [] = Inr (waypoints m)" by blast
    with False show ?thesis
      by (intro exI[of _ "k # pre"] exI[of _ i] exI[of _ post]) simp
  qed
qed

lemma pose_loop_None:
  "pose_loop tot wps cur ks = Inr None \<Longrightarrow> \<forall>k\<in>set ks. \<not> ahead (wps ! k) cur"
proof (induction ks)
  case Nil
  then show ?case by simp
next
  case (Cons k ks)
  have na: "\<not> ahead (wps ! k) cur"
  proof
    assume "ahead (wps ! k) cur"
    with Cons.prems show False
      using pose_loop_hit[of wps k cur tot ks]
      by (auto simp del: pose_loop.simps split: sum.splits)
  qed
  with Cons.prems obtain r where r: "convert_local (wps ! k) cur = Inr r"
    by (cases "convert_local (wps ! k) cur") auto
  have "pose_loop tot wps cur ks = Inr None"
    using pose_loop_miss[OF na r, of tot ks] Cons.prems by (simp del: pose_loop.simps)
  with Cons.IH na show ?case by simp
qed

lemma upt_split_at:
  "[0..<n] = pre @ i # post \<Longrightarrow> pre = [0..<i] \<and> i < n"
proof -
  assume a: "[0..<n] = pre @ i # post"
  then have len: "length pre < n"
  proof -
    have "length [0..<n] = length pre + Suc (length post)" using a by simp
    then show ?thesis by simp
  qed
  have "[0..<n] ! length pre = i" using a by simp
  with len have i: "i = length pre" by simp
  have "pre = take (length pre) [0..<n]" using a by simp
  also have "\<dots> = [0..<length pre]" using len by (simp add: take_upt)
  finally show ?thesis using i len by simp
qed

lemma pose_cb_first:
  assumes "base_waypoints self = LaneMsg lane" "i < length (waypoints lane)"
    "ahead (waypoints lane ! i) cur"
    "\<forall>k<i. \<not> ahead (waypoints lane ! k) cur \<and>
       valid_w (orientation (pose (wp_pose (waypoints lane ! k))))"
  shows "pose_cb self cur =
     (case lookahead_loop (total_waypoints self) (waypoints lane) i [0..<LOOKAHEAD_WPS] [] of
        Inl e \<Rightarrow> Inl e
      | Inr l \<Rightarrow> Inr (self\<lparr>final_waypoints_pub := final_waypoints_pub self @ [\<lparr>waypoints = l\<rparr>]\<rparr>))"
proof -
  let ?wps = "waypoints lane"
  have "[0..<length ?wps] = [0..<i] @ [i..<length ?wps]"
    using assms(2) by (metis le0 le_add_diff_inverse less_imp_le upt_add_eq_append)
  then have split: "[0..<length ?wps] = [0..<i] @ i # [Suc i..<length ?wps]"
    using assms(2) by (simp add: upt_conv_Cons)
  have "pose_loop (total_waypoints self) ?wps cur [0..<length ?wps] =
        pose_loop (total_waypoints self) ?wps cur (i # [Suc i..<length ?wps])"
    unfolding split using assms(4) ahead_valid_car[OF assms(3)]
    by (intro pose_loop_skip) auto
  then show ?thesis
    using assms(1) pose_loop_hit[OF assms(3), of "total_waypoints self" "[Suc i..<length ?wps]"]
    by (simp add: pose_cb_def del: pose_loop.simps split: sum.splits)
qed

lemma window_index_wrap:
  assumes "i < L" "\<forall>j<LOOKAHEAD_WPS. i + j mod L < L" "j < LOOKAHEAD_WPS"
  shows "i + j mod L = (i + j) mod L"
proof (cases "LOOKAHEAD_WPS \<le> L")
  case True
  then have "j mod L = j" using assms(3) by simp
  moreover have "i + j mod L < L" using assms(2,3) by blast
  ultimately show ?thesis by simp
next
  case False
  then have "L - 1 < LOOKAHEAD_WPS" by simp
  with assms(2) have "i + (L - 1) mod L < L" by blast
  moreover have "(L - 1) mod L = L - 1" using assms(1) by simp
  ultimately have "i = 0" using assms(1) by simp
  then show ?thesis by simp
qed

lemma pose_cb_published:
  assumes b: "base_waypoints self = LaneMsg lane"
    and r: "pose_cb self cur = Inr self'"
    and a: "i < length (waypoints lane)" "ahead (waypoints lane ! i) cur"
    and n: "\<forall>k<i. \<not> ahead (waypoints lane ! k) cur"
  shows "0 < total_waypoints self \<and>
     (\<forall>j<LOOKAHEAD_WPS. i + j mod total_waypoints self < length (waypoints lane)) \<and>
     self' = self\<lparr>final_waypoints_pub := final_waypoints_pub self @
        [\<lparr>waypoints = map (\<lambda>j. waypoints lane ! (i + j mod total_waypoints self))
            [0..<LOOKAHEAD_WPS]\<rparr>]\<rparr>"
proof -
  let ?wps = "waypoints lane" and ?tot = "total_waypoints self"
  obtain res where res: "pose_loop ?tot ?wps cur [0..<length ?wps] = Inr res"
    using b r by (auto simp: pose_cb_def split: sum.splits)
  have "res \<noteq> None"
  proof
    assume "res = None"
    with res have "\<forall>k\<in>set [0..<length ?wps]. \<not> ahead (?wps ! k) cur"
      using pose_loop_None by blast
    with a show False by simp
  qed
  then obtain m where m: "res = Some m" by blast
  from pose_loop_Some[OF res[unfolded m]] obtain pre i' post where
    sp: "[0..<length ?wps] = pre @ i' # post" and
    np: "\<forall>k\<in>set pre. \<not> ahead (?wps ! k) cur" and
    ai: "ahead (?wps ! i') cur" and
    lk: "lookahead_loop ?tot ?wps i' [0..<LOOKAHEAD_WPS] [] = Inr (waypoints m)"
    by blast
  from upt_split_at[OF sp] have pre: "pre = [0..<i']" and i'l: "i' < length ?wps" by simp_all
  have "i' = i"
  proof (rule ccontr)
    assume "i' \<noteq> i"
    then consider "i' < i" | "i < i'" by linarith
    then show False
    proof cases
      case 1 with n ai show False by blast
    next
      case 2 with np pre a(2) show False by simp
    qed
  qed
  have tot: "0 < ?tot"
  proof (rule ccontr)
    assume "\<not> 0 < ?tot"
    then have "?tot = 0" by simp
    with lk show False by (simp add: lookahead_loop_zero LOOKAHEAD_WPS_def)
  qed
  from lk tot \<open>i' = i\<close> have
    rng: "\<forall>j\<in>set [0..<LOOKAHEAD_WPS]. i + j mod ?tot < length ?wps" and
    wm: "waypoints m = map (\<lambda>j. ?wps ! (i + j mod ?tot)) [0..<LOOKAHEAD_WPS]"
    by (auto simp: lookahead_loop_eq split: if_splits)
  have "m = \<lparr>waypoints = map (\<lambda>j. ?wps ! (i + j mod ?tot)) [0..<LOOKAHEAD_WPS]\<rparr>"
    using wm by (cases m) simp
  moreover have "self' = self\<lparr>final_waypoints_pub := final_waypoints_pub self @ [m]\<rparr>"
    using b r res m by (simp add: pose_cb_def)
  ultimately show ?thesis using tot rng by simp
qed

subsection \<open>The straight example route\<close>

lemma ahead_line: "ahead (mk_waypoint x v) (car_pose c 0 0) \<longleftrightarrow> c < x"
  by (simp add: ahead_def convert_local_def py_acos_def mk_waypoint_def car_pose_def
      yaw_quaternion_def)

lemma valid_line: "valid_w (orientation (pose (wp_pose (mk_waypoint x v))))"
  by (simp add: valid_w_def mk_waypoint_def car_pose_def yaw_quaternion_def)

lemma line_nth: "k < n \<Longrightarrow> waypoints (line_route n) ! k = mk_waypoint (real k) 10"
  by (simp add: line_route_def)

lemma line_length: "length (waypoints (line_route n)) = n"
  by (simp add: line_route_def)

lemma line_loaded:
  "base_waypoints (waypoints_cb init (line_route n)) = LaneMsg (line_route n)"
  "total_waypoints (waypoints_cb init (line_route n)) = length (waypoints (line_route n))"
  by (simp_all add: waypoints_cb_def)

lemma real_bound_below:
  "m < n \<Longrightarrow> real n \<le> c + 1 \<Longrightarrow> real m \<le> c"
proof -
  assume "m < n" "real n \<le> c + 1"
  then have "real m + 1 \<le> real n" by (simp add: Suc_leI flip: of_nat_Suc del: of_nat_Suc)
  with \<open>real n \<le> c + 1\<close> show ?thesis by simp
qed

lemma line_first:
  assumes "i < n" "real i > c" "real i \<le> c + 1"
  shows "i < length (waypoints (line_route n)) \<and>
     ahead (waypoints (line_route n) ! i) (car_pose c 0 0) \<and>
     (\<forall>k<i. \<not> ahead (waypoints (line_route n) ! k) (car_pose c 0 0) \<and>
        valid_w (orientation (pose (wp_pose (waypoints (line_route n) ! k)))))"
proof -
  have "\<forall>k<i. real k \<le> c" using assms(3) real_bound_below by blast
  with assms(1,2) show ?thesis
    by (auto simp: line_length line_nth ahead_line valid_line)
qed

text \<open>
  With the car at \<open>x = c\<close> on the straight route, heading along it, and the window
  inside the route, \<open>pose_cb\<close> publishes the window that starts at the first waypoint
  beyond \<open>c\<close>.
\<close>

lemma pose_cb_line:
  assumes "i < n" "real i > c" "real i \<le> c + 1" "i + (LOOKAHEAD_WPS - 1) < n"
  shows "pose_cb (waypoints_cb init (line_route n)) (car_pose c 0 0) =
     Inr ((waypoints_cb init (line_route n))\<lparr>final_waypoints_pub := [line_window i]\<rparr>)"
proof -
  let ?s = "waypoints_cb init (line_route n)"
  have t: "total_waypoints ?s = n" by (simp add: waypoints_cb_def line_length)
  have p: "final_waypoints_pub ?s = []" by (simp add: waypoints_cb_def init_def)
  from line_first[OF assms(1,2,3)] have
    l: "i < length (waypoints (line_route n))" and
    a: "ahead (waypoints (line_route n) ! i) (car_pose c 0 0)" and
    nn: "\<forall>k<i. \<not> ahead (waypoints (line_route n) ! k) (car_pose c 0 0) \<and>
      valid_w (orientation (pose (wp_pose (waypoints (line_route n) ! k))))"
    by simp_all
  have m: "\<And>j. j < LOOKAHEAD_WPS \<Longrightarrow> j mod n = j" using assms(4) by simp
  have r: "\<forall>j\<in>set [0..<LOOKAHEAD_WPS]. i + j mod n < length (waypoints (line_route n))"
    using assms(4) m by (auto simp: line_length)
  have e: "map (\<lambda>j. waypoints (line_route n) ! (i + j mod n)) [0..<LOOKAHEAD_WPS] =
           map (\<lambda>j. mk_waypoint (real (i + j)) 10) [0..<LOOKAHEAD_WPS]"
    using assms(4) m by (intro map_cong) (auto simp: line_nth simp del: of_nat_add)
  have "lookahead_loop n (waypoints (line_route n)) i [0..<LOOKAHEAD_WPS] [] =
      Inr (map (\<lambda>j. mk_waypoint (real (i + j)) 10) [0..<LOOKAHEAD_WPS])"
    using assms(1) r e by (simp add: lookahead_loop_eq)
  then show ?thesis
    using pose_cb_first[OF line_loaded(1) l a nn] t p by (simp add: line_window_def)
qed

subsection \<open>Wrap-around of the window\<close>

text \<open>
  C1. The claim: when the window must extend past the end of the route, the \<open>j\<close>-th
  published waypoint is the base waypoint at index \<open>(i + j) mod L\<close>. The code computes
  \<open>i + (j mod L)\<close> and does not publish: on the straight route of 60 waypoints with the
  car between waypoints 19 and 20, the first waypoint ahead is number 20, the window
  would need the indices 20 to 69, and the read at index 60 raises \<open>IndexError\<close>.
\<close>

theorem pose_cb_wrap_IndexError:
  "pose_cb (waypoints_cb init (line_route 60)) (car_pose (39 / 2) 0 0) = Inl IndexError"
proof -
  let ?s = "waypoints_cb init (line_route 60)"
  have b: "base_waypoints ?s = LaneMsg (line_route 60)" by (simp add: waypoints_cb_def)
  have t: "total_waypoints ?s = 60" by (simp add: waypoints_cb_def line_length)
  have l: "(20::nat) < length (waypoints (line_route 60))" by (simp add: line_length)
  have a: "ahead (waypoints (line_route 60) ! 20) (car_pose (39 / 2) 0 0)"
    by (simp add: line_nth ahead_line)
  have n: "\<forall>k<20. \<not> ahead (waypoints (line_route 60) ! k) (car_pose (39 / 2) 0 0) \<and>
      valid_w (orientation (pose (wp_pose (waypoints (line_route 60) ! k))))"
    by (auto simp: line_nth ahead_line valid_line)
  have "\<not> (\<forall>j\<in>set [0..<LOOKAHEAD_WPS]. 20 + j mod 60 < length (waypoints (line_route 60)))"
    by (auto simp: line_length LOOKAHEAD_WPS_def intro!: bexI[of _ 40])
  then have "lookahead_loop 60 (waypoints (line_route 60)) 20 [0..<LOOKAHEAD_WPS] [] = Inl IndexError"
    by (simp add: lookahead_loop_eq)
  then show ?thesis
    using pose_cb_first[OF b l a n] t by simp
qed

subsection \<open>A pose before any route\<close>

text \<open>
  C2. The claim: a pose that arrives before any route has been loaded is a no-op and no
  exception leaves the handler. In the state left by \<open>__init__\<close>, \<open>base_waypoints\<close> is
  the list \<open>[]\<close>, and \<open>pose_cb\<close> raises \<open>AttributeError\<close> at its first read of
  \<open>self.base_waypoints.waypoints\<close>, for every pose message.
\<close>

theorem pose_cb_before_load_AttributeError:
  "pose_cb init msg = Inl AttributeError"
  by (simp add: pose_cb_def init_def)

subsection \<open>The heading computed by convert_local\<close>

lemma theta_car_abs:
  assumes "- pi < \<theta>" "\<theta> \<le> pi"
  shows "\<exists>x y tw. convert_local (mk_waypoint a v) (car_pose cx cy \<theta>) = Inr (x, y, \<bar>\<theta>\<bar>, tw)"
proof -
  have "arccos (cos (\<theta> / 2)) = \<bar>\<theta>\<bar> / 2"
  proof (cases "0 \<le> \<theta>")
    case True
    then show ?thesis using assms by (simp add: arccos_cos)
  next
    case False
    then have "arccos (cos (\<theta> / 2)) = arccos (cos (- \<theta> / 2))" by simp
    also have "\<dots> = - \<theta> / 2" using False assms by (intro arccos_cos) auto
    finally show ?thesis using False by simp
  qed
  then show ?thesis
    by (simp add: convert_local_def py_acos_def mk_waypoint_def car_pose_def
        yaw_quaternion_def Let_def)
qed

text \<open>
  C3. The claim: for a planar heading \<open>\<theta>\<close> in \<open>(-\<pi>, \<pi>]\<close>, \<open>theta_car\<close> equals \<open>\<theta>\<close>.
  The code computes \<open>2 * acos(w)\<close>, which is the absolute value of \<open>\<theta>\<close>
  (lemma \<open>theta_car_abs\<close>): for the car at the origin with heading \<open>-\<pi>/2\<close> the third
  component of the result, \<open>theta_car\<close>, is \<open>\<pi>/2\<close>.
\<close>

theorem convert_local_negative_heading:
  "convert_local (mk_waypoint 1 10) (car_pose 0 0 (- pi / 2)) = Inr (0, - 1, pi / 2, 0)"
proof -
  have a: "arccos (cos (pi / 4)) = pi / 4" by (intro arccos_cos) auto
  show ?thesis
    by (simp add: a convert_local_def py_acos_def mk_waypoint_def car_pose_def
        yaw_quaternion_def Let_def)
qed

subsection \<open>Stop commands\<close>

text \<open>
  C4 as stated fails: after a stop command for index 5 has been handed to \<open>traffic_cb\<close>,
  the window published for the car just before waypoint 0 of the straight route of 60
  waypoints still has the reference speed 10 at position 5, where the claim wants 0.
\<close>

theorem stop_command_speed_not_zero:
  "last_window_speeds (pose_cb (traffic_cb (waypoints_cb init (line_route 60)) 5)
      (car_pose (- 1 / 2) 0 0)) ! 5 = 10"
proof -
  have "pose_cb (waypoints_cb init (line_route 60)) (car_pose (- 1 / 2) 0 0) =
     Inr ((waypoints_cb init (line_route 60))\<lparr>final_waypoints_pub := [line_window 0]\<rparr>)"
    by (rule pose_cb_line) (simp_all add: LOOKAHEAD_WPS_def)
  then show ?thesis
    by (simp add: traffic_cb_def last_window_speeds_def line_window_def LOOKAHEAD_WPS_def
        nth_map_upt get_waypoint_velocity_def mk_waypoint_def del: upt_Suc)
qed

text \<open>
  C4, amended. \<open>traffic_cb\<close> leaves the node as it is, so a stop command changes nothing:
  for every loaded route, every pose whose first waypoint ahead has index \<open>i\<close> and
  every stop index handed to \<open>traffic_cb\<close> before, a call of \<open>pose_cb\<close> that returns
  publishes one window whose speeds are the stored reference speeds of the base waypoints
  \<open>(i + j) mod L\<close> for \<open>j = 0, ..., LOOKAHEAD_WPS - 1\<close>; no deceleration is applied.
\<close>

theorem traffic_cb_keeps_reference_speeds:
  assumes "base_waypoints self = LaneMsg lane"
    and "total_waypoints self = length (waypoints lane)"
    and "i < length (waypoints lane)" "ahead (waypoints lane ! i) cur"
    and "\<forall>k<i. \<not> ahead (waypoints lane ! k) cur"
    and "pose_cb (traffic_cb self stop) cur = Inr self'"
  shows "traffic_cb self stop = self \<and>
     (\<exists>m. final_waypoints_pub self' = final_waypoints_pub self @ [m] \<and>
        map get_waypoint_velocity (waypoints m) =
        map (\<lambda>j. get_waypoint_velocity (waypoints lane ! ((i + j) mod length (waypoints lane))))
          [0..<LOOKAHEAD_WPS])"
proof -
  let ?L = "length (waypoints lane)"
  have r: "pose_cb self cur = Inr self'" using assms(6) by (simp add: traffic_cb_def)
  from pose_cb_published[OF assms(1) r assms(3) assms(4) assms(5)] assms(2)
  have rng: "\<forall>j<LOOKAHEAD_WPS. i + j mod ?L < ?L" and
    s: "self' = self\<lparr>final_waypoints_pub := final_waypoints_pub self @
        [\<lparr>waypoints = map (\<lambda>j. waypoints lane ! (i + j mod ?L)) [0..<LOOKAHEAD_WPS]\<rparr>]\<rparr>"
    by simp_all
  have "\<forall>j<LOOKAHEAD_WPS. i + j mod ?L = (i + j) mod ?L"
    using window_index_wrap[OF assms(3) rng] by blast
  then have "map (\<lambda>j. get_waypoint_velocity (waypoints lane ! (i + j mod ?L))) [0..<LOOKAHEAD_WPS] =
     map (\<lambda>j. get_waypoint_velocity (waypoints lane ! ((i + j) mod ?L))) [0..<LOOKAHEAD_WPS]"
    by (intro map_cong) auto
  then show ?thesis
    using s by (simp add: traffic_cb_def comp_def)
qed

text \<open>The car between waypoints 0 and 1 of the straight route, stop index 5.\<close>

theorem traffic_cb_keeps_reference_speeds_witness:
  "traffic_cb (waypoints_cb init (line_route 60)) 5 = waypoints_cb init (line_route 60) \<and>
   (\<exists>m. final_waypoints_pub
           ((waypoints_cb init (line_route 60))\<lparr>final_waypoints_pub := [line_window 1]\<rparr>) =
        final_waypoints_pub (waypoints_cb init (line_route 60)) @ [m] \<and>
        map get_waypoint_velocity (waypoints m) =
        map (\<lambda>j. get_waypoint_velocity
                    (waypoints (line_route 60) ! ((1 + j) mod length (waypoints (line_route 60)))))
          [0..<LOOKAHEAD_WPS])"
proof -
  have f: "1 < length (waypoints (line_route 60)) \<and>
      ahead (waypoints (line_route 60) ! 1) (car_pose (1 / 2) 0 0) \<and>
      (\<forall>k<1. \<not> ahead (waypoints (line_route 60) ! k) (car_pose (1 / 2) 0 0) \<and>
        valid_w (orientation (pose (wp_pose (waypoints (line_route 60) ! k)))))"
    using line_first[of 1 60 "1 / 2"] by simp
  have r: "pose_cb (traffic_cb (waypoints_cb init (line_route 60)) 5) (car_pose (1 / 2) 0 0) =
      Inr ((waypoints_cb init (line_route 60))\<lparr>final_waypoints_pub := [line_window 1]\<rparr>)"
    unfolding traffic_cb_def by (intro pose_cb_line) (simp_all add: LOOKAHEAD_WPS_def)
  show ?thesis
    using f
    by (intro traffic_cb_keeps_reference_speeds[OF line_loaded(1) line_loaded(2) _ _ _ r])
      simp_all
qed

subsection \<open>Where the window starts\<close>

text \<open>
  What the code does: when some waypoint passes the test of line 90 as the code computes
  it (\<open>ahead\<close>), a call of \<open>pose_cb\<close> that returns has published exactly one window,
  and its first waypoint is the base waypoint with the smallest index that passes.
\<close>

lemma pose_cb_starts_at_first_passing:
  assumes "base_waypoints self = LaneMsg lane"
    and "\<exists>k<length (waypoints lane). ahead (waypoints lane ! k) cur"
    and "pose_cb self cur = Inr self'"
  shows "\<exists>i m. i < length (waypoints lane) \<and> ahead (waypoints lane ! i) cur \<and>
      (\<forall>k<i. \<not> ahead (waypoints lane ! k) cur) \<and>
      final_waypoints_pub self' = final_waypoints_pub self @ [m] \<and>
      length (waypoints m) = LOOKAHEAD_WPS \<and>
      waypoints m ! 0 = waypoints lane ! i"
proof -
  let ?P = "\<lambda>k. k < length (waypoints lane) \<and> ahead (waypoints lane ! k) cur"
  define i where "i = (LEAST k. ?P k)"
  from assms(2) obtain k0 where "?P k0" by blast
  then have Pi: "?P i" unfolding i_def by (rule LeastI)
  have least: "\<forall>k<i. \<not> ahead (waypoints lane ! k) cur"
  proof (intro allI impI)
    fix k assume "k < i"
    then have "\<not> ?P k" unfolding i_def by (rule not_less_Least)
    moreover have "k < length (waypoints lane)" using \<open>k < i\<close> Pi by simp
    ultimately show "\<not> ahead (waypoints lane ! k) cur" by simp
  qed
  from pose_cb_published[OF assms(1) assms(3) _ _ least] Pi
  have s: "self' = self\<lparr>final_waypoints_pub := final_waypoints_pub self @
        [\<lparr>waypoints = map (\<lambda>j. waypoints lane ! (i + j mod total_waypoints self))
            [0..<LOOKAHEAD_WPS]\<rparr>]\<rparr>" by simp
  show ?thesis
    apply (rule exI[of _ i])
    apply (rule exI[of _ "\<lparr>waypoints = map (\<lambda>j. waypoints lane ! (i + j mod total_waypoints self))
            [0..<LOOKAHEAD_WPS]\<rparr>"])
    using Pi least s by (simp add: LOOKAHEAD_WPS_def nth_map_upt del: upt_Suc)
qed

text \<open>
  The test of the code against the test of the specification. Both headings are computed
  as \<open>2 * acos(w)\<close>; for headings in \<open>[0, \<pi>]\<close> this is the heading, and the two tests
  agree (\<open>ahead_nonneg_heading\<close>). On the route running south, with the car at the
  origin heading south, the code lets the waypoints \<open>k < 10\<close> pass, which lie north of
  the car, and the specification the waypoints \<open>k > 10\<close>, which lie south of it.
\<close>

lemma arccos_cos_quarter: "arccos (cos (pi / 4)) = pi / 4"
  by (intro arccos_cos) auto

lemma convert_local_south:
  "convert_local (south_waypoint k) (car_pose 0 0 (- (pi / 2))) = Inr (10 - real k, 0, pi / 2, pi / 2)"
  by (simp add: arccos_cos_quarter convert_local_def py_acos_def south_waypoint_def car_pose_def
      yaw_quaternion_def Let_def)

lemma ahead_south: "ahead (south_waypoint k) (car_pose 0 0 (- (pi / 2))) \<longleftrightarrow> k < 10"
  by (simp add: ahead_def convert_local_south)

lemma spec_forward_south:
  "spec_forward (- (pi / 2)) (south_waypoint k) (car_pose 0 0 (- (pi / 2))) = real k - 10"
  by (simp add: spec_forward_def south_waypoint_def car_pose_def)

lemma spec_qualifies_south:
  "spec_qualifies (- (pi / 2)) (- (pi / 2)) (south_waypoint k) (car_pose 0 0 (- (pi / 2))) \<longleftrightarrow> 10 < k"
  by (simp add: spec_qualifies_def spec_forward_south)

lemma ahead_nonneg_heading:
  assumes "0 \<le> \<theta>c" "\<theta>c \<le> pi" "0 \<le> \<theta>w" "\<theta>w \<le> pi"
    and "orientation (pose cur) = yaw_quaternion \<theta>c"
    and "orientation (pose (wp_pose wp)) = yaw_quaternion \<theta>w"
  shows "ahead wp cur \<longleftrightarrow> spec_qualifies \<theta>c \<theta>w wp cur"
proof -
  have c: "arccos (cos (\<theta>c / 2)) = \<theta>c / 2" using assms(1,2) by (intro arccos_cos) auto
  have w: "arccos (cos (\<theta>w / 2)) = \<theta>w / 2" using assms(3,4) by (intro arccos_cos) auto
  show ?thesis
    by (simp add: ahead_def convert_local_def py_acos_def Let_def assms(5,6) yaw_quaternion_def
        c w spec_qualifies_def spec_forward_def)
qed

text \<open>
  C5. The claim: the published window starts at the first waypoint, in route order, whose
  forward coordinate in the vehicle's frame is positive and whose heading is within the
  threshold of the vehicle's. The code decides this with the headings of
  \<open>convert_local\<close>, which have lost their sign (C3). With the car at the origin
  heading south on the route running south, \<open>pose_cb\<close> publishes the window that starts
  at waypoint 0, at \<open>(0, 10)\<close>: its forward coordinate in the frame of the car is
  \<open>-10\<close>, ten units behind the car, and the first waypoint in front of the car,
  number 11, is not the start.
\<close>

theorem pose_cb_window_starts_behind_car:
  "pose_cb (waypoints_cb init (south_route 60)) (car_pose 0 0 (- (pi / 2))) =
     Inr ((waypoints_cb init (south_route 60))\<lparr>final_waypoints_pub := [south_window]\<rparr>) \<and>
   waypoints south_window ! 0 = south_waypoint 0 \<and>
   spec_forward (- (pi / 2)) (south_waypoint 0) (car_pose 0 0 (- (pi / 2))) = - 10"
proof -
  let ?s = "waypoints_cb init (south_route 60)"
  let ?wps = "waypoints (south_route 60)"
  have b: "base_waypoints ?s = LaneMsg (south_route 60)" by (simp add: waypoints_cb_def)
  have t: "total_waypoints ?s = 60" by (simp add: waypoints_cb_def south_route_def)
  have p: "final_waypoints_pub ?s = []" by (simp add: waypoints_cb_def init_def)
  have l: "(0::nat) < length ?wps" by (simp add: south_route_def)
  have n: "\<And>k. k < 60 \<Longrightarrow> ?wps ! k = south_waypoint k" by (simp add: south_route_def)
  have a: "ahead (?wps ! 0) (car_pose 0 0 (- (pi / 2)))" by (simp add: n ahead_south)
  have nn: "\<forall>k<0. \<not> ahead (?wps ! k) (car_pose 0 0 (- (pi / 2))) \<and>
      valid_w (orientation (pose (wp_pose (?wps ! k))))" by simp
  have r: "\<forall>j\<in>set [0..<LOOKAHEAD_WPS]. 0 + j mod 60 < length ?wps"
    by (auto simp: south_route_def LOOKAHEAD_WPS_def)
  have e: "map (\<lambda>j. ?wps ! (0 + j mod 60)) [0..<LOOKAHEAD_WPS] = map south_waypoint [0..<LOOKAHEAD_WPS]"
    by (intro map_cong) (auto simp: n LOOKAHEAD_WPS_def)
  have "lookahead_loop 60 ?wps 0 [0..<LOOKAHEAD_WPS] [] = Inr (map south_waypoint [0..<LOOKAHEAD_WPS])"
    using r e by (simp add: lookahead_loop_eq)
  then have 1: "pose_cb ?s (car_pose 0 0 (- (pi / 2))) = Inr (?s\<lparr>final_waypoints_pub := [south_window]\<rparr>)"
    using pose_cb_first[OF b l a nn] t p by (simp add: south_window_def)
  have 2: "waypoints south_window ! 0 = south_waypoint 0"
    by (simp add: south_window_def LOOKAHEAD_WPS_def nth_map_upt del: upt_Suc)
  have 3: "spec_forward (- (pi / 2)) (south_waypoint 0) (car_pose 0 0 (- (pi / 2))) = - 10"
    by (simp add: spec_forward_south)
  from 1 2 3 show ?thesis by simp
qed

subsection \<open>Cruise speeds\<close>

text \<open>
  C6. For every loaded route and every pose whose first waypoint ahead has index \<open>i\<close>, a
  call of \<open>pose_cb\<close> that returns has published one window of \<open>LOOKAHEAD_WPS\<close>
  waypoints, and the velocity of its \<open>j\<close>-th waypoint, read with
  \<open>get_waypoint_velocity\<close>, is the stored velocity of the base waypoint
  \<open>(i + j) mod L\<close>.
\<close>

theorem pose_cb_cruise_speeds:
  assumes "base_waypoints self = LaneMsg lane"
    and "total_waypoints self = length (waypoints lane)"
    and "i < length (waypoints lane)" "ahead (waypoints lane ! i) cur"
    and "\<forall>k<i. \<not> ahead (waypoints lane ! k) cur"
    and "pose_cb self cur = Inr self'"
  shows "\<exists>m. final_waypoints_pub self' = final_waypoints_pub self @ [m] \<and>
      length (waypoints m) = LOOKAHEAD_WPS \<and>
      (\<forall>j<LOOKAHEAD_WPS.
         get_waypoint_velocity (waypoints m ! j) =
         get_waypoint_velocity (waypoints lane ! ((i + j) mod length (waypoints lane))))"
proof -
  let ?L = "length (waypoints lane)"
  from pose_cb_published[OF assms(1) assms(6) assms(3) assms(4) assms(5)] assms(2)
  have rng: "\<forall>j<LOOKAHEAD_WPS. i + j mod ?L < ?L" and
    s: "self' = self\<lparr>final_waypoints_pub := final_waypoints_pub self @
        [\<lparr>waypoints = map (\<lambda>j. waypoints lane ! (i + j mod ?L)) [0..<LOOKAHEAD_WPS]\<rparr>]\<rparr>"
    by simp_all
  have "\<forall>j<LOOKAHEAD_WPS. i + j mod ?L = (i + j) mod ?L"
    using window_index_wrap[OF assms(3) rng] by blast
  then show ?thesis
    using s
    by (intro exI[of _ "\<lparr>waypoints = map (\<lambda>j. waypoints lane ! (i + j mod ?L))
          [0..<LOOKAHEAD_WPS]\<rparr>"])
      (simp add: nth_map_upt del: upt_Suc)
qed

text \<open>The car between waypoints 2 and 3 of the straight route of 60 waypoints.\<close>

theorem pose_cb_cruise_speeds_witness:
  "\<exists>m. final_waypoints_pub
          ((waypoints_cb init (line_route 60))\<lparr>final_waypoints_pub := [line_window 3]\<rparr>) =
        final_waypoints_pub (waypoints_cb init (line_route 60)) @ [m] \<and>
      length (waypoints m) = LOOKAHEAD_WPS \<and>
      (\<forall>j<LOOKAHEAD_WPS.
         get_waypoint_velocity (waypoints m ! j) =
         get_waypoint_velocity
           (waypoints (line_route 60) ! ((3 + j) mod length (waypoints (line_route 60)))))"
proof -
  have f: "3 < length (waypoints (line_route 60)) \<and>
      ahead (waypoints (line_route 60) ! 3) (car_pose (5 / 2) 0 0) \<and>
      (\<forall>k<3. \<not> ahead (waypoints (line_route 60) ! k) (car_pose (5 / 2) 0 0) \<and>
        valid_w (orientation (pose (wp_pose (waypoints (line_route 60) ! k)))))"
    using line_first[of 3 60 "5 / 2"] by simp
  have r: "pose_cb (waypoints_cb init (line_route 60)) (car_pose (5 / 2) 0 0) =
      Inr ((waypoints_cb init (line_route 60))\<lparr>final_waypoints_pub := [line_window 3]\<rparr>)"
    by (intro pose_cb_line) (simp_all add: LOOKAHEAD_WPS_def)
  show ?thesis
    using f by (intro pose_cb_cruise_speeds[OF line_loaded(1) line_loaded(2) _ _ _ r]) simp_all
qed

subsection \<open>The read past the end of the route\<close>

text \<open>
  C7. For a loaded route of length \<open>L > LOOKAHEAD_WPS\<close> and a pose whose first waypoint
  ahead has index \<open>i\<close> with \<open>i + LOOKAHEAD_WPS - 1 \<ge> L\<close> (all orientations before
  \<open>i\<close> being in the domain of \<open>acos\<close>), some \<open>j\<close> of the inner loop gives the index
  \<open>i + (j mod L) = i + j > L - 1\<close>, and \<open>pose_cb\<close> raises \<open>IndexError\<close>. The witness
  below is such a route and pose, so the error is reachable.
\<close>

theorem pose_cb_index_out_of_bounds:
  assumes "base_waypoints self = LaneMsg lane"
    and "total_waypoints self = length (waypoints lane)"
    and "LOOKAHEAD_WPS < length (waypoints lane)"
    and "i < length (waypoints lane)" "ahead (waypoints lane ! i) cur"
    and "\<forall>k<i. \<not> ahead (waypoints lane ! k) cur \<and>
           valid_w (orientation (pose (wp_pose (waypoints lane ! k))))"
    and "length (waypoints lane) \<le> i + LOOKAHEAD_WPS - 1"
  shows "(\<exists>j<LOOKAHEAD_WPS. i + j mod total_waypoints self = i + j \<and>
            length (waypoints lane) - 1 < i + j) \<and>
         pose_cb self cur = Inl IndexError"
proof -
  let ?L = "length (waypoints lane)"
  let ?j = "?L - i"
  have j: "?j < LOOKAHEAD_WPS" "?j mod ?L = ?j" "i + ?j = ?L"
    using assms(3,4,7) by (auto simp: LOOKAHEAD_WPS_def)
  then have "\<not> (\<forall>j\<in>set [0..<LOOKAHEAD_WPS]. i + j mod ?L < ?L)"
    by (auto intro!: bexI[of _ ?j])
  moreover have "0 < ?L" using assms(4) by (cases "waypoints lane") simp_all
  ultimately have "lookahead_loop ?L (waypoints lane) i [0..<LOOKAHEAD_WPS] [] = Inl IndexError"
    by (simp only: lookahead_loop_eq if_False)
  then have "pose_cb self cur = Inl IndexError"
    using pose_cb_first[OF assms(1) assms(4) assms(5) assms(6)] assms(2) by simp
  moreover have "\<exists>j<LOOKAHEAD_WPS. i + j mod total_waypoints self = i + j \<and> ?L - 1 < i + j"
    using j assms(2,4) by (intro exI[of _ ?j]) simp
  ultimately show ?thesis by simp
qed

text \<open>The straight route of 51 waypoints, the car between waypoints 1 and 2.\<close>

theorem pose_cb_index_out_of_bounds_witness:
  "pose_cb (waypoints_cb init (line_route 51)) (car_pose (3 / 2) 0 0) = Inl IndexError"
proof -
  have f: "2 < length (waypoints (line_route 51)) \<and>
      ahead (waypoints (line_route 51) ! 2) (car_pose (3 / 2) 0 0) \<and>
      (\<forall>k<2. \<not> ahead (waypoints (line_route 51) ! k) (car_pose (3 / 2) 0 0) \<and>
        valid_w (orientation (pose (wp_pose (waypoints (line_route 51) ! k)))))"
    using line_first[of 2 51 "3 / 2"] by simp
  have "(\<exists>j<LOOKAHEAD_WPS.
            2 + j mod total_waypoints (waypoints_cb init (line_route 51)) = 2 + j \<and>
            length (waypoints (line_route 51)) - 1 < 2 + j) \<and>
         pose_cb (waypoints_cb init (line_route 51)) (car_pose (3 / 2) 0 0) = Inl IndexError"
    using f by (intro pose_cb_index_out_of_bounds[OF line_loaded(1) line_loaded(2)])
      (simp_all add: line_length LOOKAHEAD_WPS_def)
  then show ?thesis by simp
qed

subsection \<open>Calling pose_cb twice\<close>

text \<open>
  C8. A call of \<open>pose_cb\<close> that returns leaves \<open>base_waypoints\<close> and
  \<open>total_waypoints\<close> as they were and only appends to the publisher; a second call with
  the same message, from the state the first one left, publishes the same messages again.
\<close>

theorem pose_cb_repeatable:
  assumes "pose_cb self msg = Inr self1"
  shows "base_waypoints self1 = base_waypoints self \<and>
         total_waypoints self1 = total_waypoints self \<and>
         (\<exists>new. final_waypoints_pub self1 = final_waypoints_pub self @ new \<and>
            pose_cb self1 msg =
              Inr (self1\<lparr>final_waypoints_pub := final_waypoints_pub self1 @ new\<rparr>))"
proof (cases "base_waypoints self")
  case EmptyList
  with assms show ?thesis by (simp add: pose_cb_def)
next
  case (LaneMsg lane)
  show ?thesis
  proof (cases "pose_loop (total_waypoints self) (waypoints lane) msg
      [0..<length (waypoints lane)]")
    case (Inl e)
    with assms LaneMsg show ?thesis by (simp add: pose_cb_def)
  next
    case (Inr res)
    show ?thesis
    proof (cases res)
      case None
      with assms LaneMsg Inr have "self1 = self" by (simp add: pose_cb_def)
      with assms show ?thesis by (intro conjI exI[of _ "[]"]) simp_all
    next
      case (Some m)
      with assms LaneMsg Inr
      have s: "self1 = self\<lparr>final_waypoints_pub := final_waypoints_pub self @ [m]\<rparr>"
        by (simp add: pose_cb_def)
      then have "pose_cb self1 msg =
          Inr (self1\<lparr>final_waypoints_pub := final_waypoints_pub self1 @ [m]\<rparr>)"
        using LaneMsg Inr Some by (simp add: pose_cb_def)
      with s show ?thesis by (intro conjI exI[of _ "[m]"]) simp_all
    qed
  qed
qed

text \<open>The car between waypoints 3 and 4 of the straight route of 60 waypoints.\<close>

theorem pose_cb_repeatable_witness:
  "base_waypoints ((waypoints_cb init (line_route 60))\<lparr>final_waypoints_pub := [line_window 4]\<rparr>) =
     base_waypoints (waypoints_cb init (line_route 60)) \<and>
   pose_cb ((waypoints_cb init (line_route 60))\<lparr>final_waypoints_pub := [line_window 4]\<rparr>)
       (car_pose (7 / 2) 0 0) =
     Inr ((waypoints_cb init (line_route 60))
            \<lparr>final_waypoints_pub := [line_window 4, line_window 4]\<rparr>)"
proof -
  have r: "pose_cb (waypoints_cb init (line_route 60)) (car_pose (7 / 2) 0 0) =
      Inr ((waypoints_cb init (line_route 60))\<lparr>final_waypoints_pub := [line_window 4]\<rparr>)"
    by (intro pose_cb_line) (simp_all add: LOOKAHEAD_WPS_def)
  have p: "final_waypoints_pub (waypoints_cb init (line_route 60)) = []"
    by (simp add: waypoints_cb_def init_def)
  from pose_cb_repeatable[OF r] show ?thesis by (auto simp: p)
qed

subsection \<open>distance\<close>

lemma py_index_nat:
  "0 \<le> k \<Longrightarrow> k < int (length xs) \<Longrightarrow> py_index xs k = Inr (xs ! nat k)"
  by (simp add: py_index_def Let_def)

lemma dl_self: "dl a a = 0"
  by (simp add: dl_def)

lemma distance_loop_sum:
  "0 \<le> c \<Longrightarrow> c < int (length wps) \<Longrightarrow> 0 \<le> a \<Longrightarrow> b < int (length wps) \<Longrightarrow>
   distance_loop wps c [a..b] d =
     Inr (if a \<le> b
          then d + dl (position (pose (wp_pose (wps ! nat c)))) (position (pose (wp_pose (wps ! nat a))))
                 + sum_list (map (\<lambda>i. dl (position (pose (wp_pose (wps ! nat i))))
                                          (position (pose (wp_pose (wps ! nat (i + 1)))))) [a..b - 1])
          else d)"
proof (induction a b arbitrary: c d rule: upto.induct)
  case (1 a b)
  show ?case
  proof (cases "a \<le> b")
    case False
    then show ?thesis by simp
  next
    case True
    then have l: "[a..b] = a # [a + 1..b]" by (simp add: upto_rec1)
    have ia: "py_index wps a = Inr (wps ! nat a)"
      using True 1(4,5) by (intro py_index_nat) auto
    have ic: "py_index wps c = Inr (wps ! nat c)"
      using 1(2,3) by (intro py_index_nat) auto
    have step: "distance_loop wps c [a..b] d =
        distance_loop wps a [a + 1..b]
          (d + dl (position (pose (wp_pose (wps ! nat c)))) (position (pose (wp_pose (wps ! nat a)))))"
      unfolding l by (simp add: ia ic)
    have IH: "distance_loop wps a [a + 1..b] d' =
        Inr (if a + 1 \<le> b
          then d' + dl (position (pose (wp_pose (wps ! nat a)))) (position (pose (wp_pose (wps ! nat (a + 1)))))
                 + sum_list (map (\<lambda>i. dl (position (pose (wp_pose (wps ! nat i))))
                                          (position (pose (wp_pose (wps ! nat (i + 1)))))) [a + 1..b - 1])
          else d')" for d'
      using 1(1)[OF True, of a d'] True 1(4,5) by simp
    show ?thesis
    proof (cases "a + 1 \<le> b")
      case True
      then have "[a..b - 1] = a # [a + 1..b - 1]" by (simp add: upto_rec1)
      then show ?thesis using True \<open>a \<le> b\<close> by (simp add: step IH)
    next
      case False
      then have "[a..b - 1] = []" using \<open>a \<le> b\<close> by simp
      then show ?thesis using False \<open>a \<le> b\<close> by (simp add: step IH)
    qed
  qed
qed

text \<open>
  C9. For every waypoint list and indices \<open>0 \<le> wp1 \<le> wp2 < length\<close>, \<open>distance\<close>
  returns the sum over \<open>i\<close> in \<open>[wp1, wp2)\<close> of the straight-line distance in three
  dimensions between the positions of waypoint \<open>i\<close> and waypoint \<open>i + 1\<close>; the first
  round of the loop adds the distance of waypoint \<open>wp1\<close> to itself, which is 0.
\<close>

theorem distance_cumulative:
  assumes "0 \<le> wp1" "wp1 \<le> wp2" "wp2 < int (length wps)"
  shows "distance wps wp1 wp2 =
     Inr (\<Sum>i = wp1..<wp2. dl (position (pose (wp_pose (wps ! nat i))))
                              (position (pose (wp_pose (wps ! nat (i + 1))))))"
proof -
  have s: "{wp1..<wp2} = set [wp1..wp2 - 1]" by auto
  have "sum_list (map (\<lambda>i. dl (position (pose (wp_pose (wps ! nat i))))
                         (position (pose (wp_pose (wps ! nat (i + 1)))))) [wp1..wp2 - 1]) =
     (\<Sum>i = wp1..<wp2. dl (position (pose (wp_pose (wps ! nat i))))
                              (position (pose (wp_pose (wps ! nat (i + 1))))))"
    unfolding s by (rule sum_list_distinct_conv_sum_set) simp
  then show ?thesis
    using assms distance_loop_sum[of wp1 wps wp1 wp2 0]
    by (simp add: distance_def dl_self)
qed

text \<open>Waypoints 1 to 3 of the straight route of 5 waypoints: two segments of length 1.\<close>

theorem distance_cumulative_witness:
  "distance (waypoints (line_route 5)) 1 3 = Inr 2"
proof -
  have e: "{1..<3::int} = {1, 2}" by auto
  have "dl (position (pose (wp_pose (mk_waypoint a 10))))
          (position (pose (wp_pose (mk_waypoint b 10)))) = \<bar>a - b\<bar>" for a b
    by (simp add: dl_def mk_waypoint_def car_pose_def)
  then show ?thesis
    using distance_cumulative[of 1 3 "waypoints (line_route 5)"]
    by (simp add: line_length e line_nth)
qed

section \<open>Properties of the dataset handler\<close>



text \<open>
  With the RIIB paths wanted, the example label file gives the rewritten path, the boxes
  moved down by 8 and the statistics of one label.
\<close>

lemma read_all_bosch_labels_riib_example:
  "read_all_bosch_labels example_env new_handler ''labels.yaml'' True =
    (\<lparr>bosch_label_dict_valid = True,
      bosch_label_dict = [\<lparr>path = ''data/riib/train/1.pgm'',
         boxes = [\<lparr>label = ''Red'', x_min = 1, x_max = 2, y_min = 11, y_max = 12\<rparr>]\<rparr>],
      bosch_label_statistics = [''Red'' \<mapsto> 1], bosch_number_images = 1,
      bosch_number_labeled_traffic_lights = 1, bosch_image_shape = (720, 1280, 3)\<rparr>,
     Inr (Some [\<lparr>path = ''data/riib/train/1.pgm'',
         boxes = [\<lparr>label = ''Red'', x_min = 1, x_max = 2, y_min = 11, y_max = 12\<rparr>]\<rparr>]))"
  by (simp add: read_all_bosch_labels_def example_env_def example_image_def new_handler_def Let_def)




end
